theory Spec2Isabelle
  imports Main
begin

section \<open>The CPU platform of vllm: \<open>vllm/platforms/cpu.py\<close>\<close>

text \<open>
  A shallow embedding of \<open>CpuPlatform\<close>. Python exceptions are values of the type
  \<open>error\<close>; the values the platform reads from its host (the operating system, the
  interpreter, installed packages, \<open>vllm.envs\<close>, \<open>vllm.utils\<close>) are the fields of the
  record \<open>host\<close>. Calls of the logger are not modelled: they change neither a
  configuration field nor an environment variable nor a returned value.
\<close>

subsection \<open>Exceptions\<close>

datatype error =
    NotImplementedError string
  | ValueError string
  | RuntimeError string
  | AssertionError
  | AttributeError
  | CalledProcessError
  | JSONDecodeError
  | KeyError string

subsection \<open>Types declared outside \<open>cpu.py\<close>\<close>

text \<open>
  \<open>CpuArchEnum\<close> and \<open>_Backend\<close> are enumerations of \<open>vllm/platforms/interface.py\<close>.
  \<open>cpu.py\<close> names the members \<open>X86\<close>, \<open>ARM\<close>, \<open>POWERPC\<close> and \<open>TORCH_SDPA\<close>; every other
  member is \<open>OTHER_ARCH\<close> or \<open>OTHER_BACKEND\<close> with its name.
\<close>

datatype CpuArchEnum = X86 | ARM | POWERPC | OTHER_ARCH string

datatype Backend = TORCH_SDPA | OTHER_BACKEND string

text \<open>The \<open>torch.dtype\<close> values; \<open>torch.half\<close> is \<open>torch.float16\<close>.\<close>

datatype torch_dtype = bfloat16 | float16 | float32 | other_dtype string

subsection \<open>Python strings\<close>

text \<open>\<open>s.startswith(p)\<close> and \<open>p in s\<close> on strings.\<close>

definition startswith :: "string \<Rightarrow> string \<Rightarrow> bool" where
  "startswith s p = (take (length p) s = p)"

fun str_contains :: "string \<Rightarrow> string \<Rightarrow> bool" where
  "str_contains p [] = (p = [])"
| "str_contains p (c # cs) = (startswith (c # cs) p \<or> str_contains p cs)"

text \<open>\<open>str(n)\<close> for an integer: the decimal digits, with a minus sign below zero.\<close>

definition digit_char :: "nat \<Rightarrow> char" where
  "digit_char d = ''0123456789'' ! d"

fun str_nat :: "nat \<Rightarrow> string" where
  "str_nat n = (if n < 10 then [digit_char n] else str_nat (n div 10) @ [digit_char (n mod 10)])"

declare str_nat.simps [simp del]

definition str_int :: "int \<Rightarrow> string" where
  "str_int i = (if i < 0 then CHR ''-'' # str_nat (nat (- i)) else str_nat (nat i))"

subsection \<open>\<open>CpuPlatform.supported_dtypes\<close>\<close>

text \<open>
  The property reads \<open>self.get_cpu_architecture()\<close> and \<open>sys.platform\<close>; both are
  arguments here.
\<close>

definition supported_dtypes :: "CpuArchEnum \<Rightarrow> string \<Rightarrow> torch_dtype list" where
  "supported_dtypes arch sys_platform =
     (if arch = POWERPC then [bfloat16, float32]
      else if startswith sys_platform ''darwin'' \<and> arch = ARM then [float16, float32]
      else [bfloat16, float16, float32])"

subsection \<open>\<open>CpuPlatform.get_attn_backend_cls\<close>\<close>

text \<open>
  The first statement of the function only logs when a backend other than
  \<open>TORCH_SDPA\<close> was selected; then come the two raises and the return.
\<close>

definition TorchSDPABackend :: string where
  "TorchSDPABackend = ''vllm.v1.attention.backends.cpu_attn.TorchSDPABackend''"

definition get_attn_backend_cls ::
  "Backend option \<Rightarrow> int \<Rightarrow> torch_dtype \<Rightarrow> string option \<Rightarrow> int \<Rightarrow> bool \<Rightarrow> bool
     \<Rightarrow> error + string" where
  "get_attn_backend_cls selected_backend head_size dtype kv_cache_dtype block_size use_v1 use_mla =
     (if use_mla then Inl (NotImplementedError ''MLA is not supported on CPU.'')
      else if \<not> use_v1 then Inl (ValueError ''CPU backend only supports V1.'')
      else Inr TorchSDPABackend)"

subsection \<open>\<open>LogicalCPUInfo\<close> and \<open>CpuPlatform.get_allowed_cpu_memory_node_list\<close>\<close>

text \<open>
  The values of the JSON that \<open>lscpu -J\<close> prints. The builtin \<open>int\<close> of Python is an
  argument \<open>py_int\<close> of the model: \<open>py_int v = None\<close> where \<open>int(v)\<close> raises.
\<close>

datatype json = JNull | JBool bool | JInt int | JStr string | JList "json list"

type_synonym json_obj = "string \<rightharpoonup> json"

text \<open>\<open>d.get(k)\<close>: \<open>None\<close> for a missing key and for the value \<open>null\<close>.\<close>

definition dict_get :: "json_obj \<Rightarrow> string \<Rightarrow> json option" where
  "dict_get obj_dict k = (case obj_dict k of None \<Rightarrow> None | Some JNull \<Rightarrow> None | Some v \<Rightarrow> Some v)"

record LogicalCPUInfo =
  id_cpu :: int
  physical_core :: int
  numa_node :: int

definition LogicalCPUInfo_int :: "(json \<Rightarrow> int option) \<Rightarrow> json \<Rightarrow> int" where
  "LogicalCPUInfo_int py_int v = (case py_int v of Some int_value \<Rightarrow> int_value | None \<Rightarrow> - 1)"

text \<open>The \<open>object_hook\<close>: an object that lacks one of the three keys is returned as it is.\<close>

definition json_decoder :: "(json \<Rightarrow> int option) \<Rightarrow> json_obj \<Rightarrow> LogicalCPUInfo + json_obj" where
  "json_decoder py_int obj_dict =
     (case (dict_get obj_dict ''cpu'', dict_get obj_dict ''core'', dict_get obj_dict ''node'') of
        (Some i, Some c, Some n) \<Rightarrow>
          Inl \<lparr>id_cpu = LogicalCPUInfo_int py_int i,
               physical_core = LogicalCPUInfo_int py_int c,
               numa_node = LogicalCPUInfo_int py_int n\<rparr>
      | _ \<Rightarrow> Inr obj_dict)"

text \<open>
  The first list comprehension reads \<open>x.id\<close>, \<open>x.physical_core\<close> and \<open>x.numa_node\<close> of
  every entry in turn: an entry that the hook left a dictionary has no such attribute.
\<close>

fun filter_invalid :: "(LogicalCPUInfo + json_obj) list \<Rightarrow> error + LogicalCPUInfo list" where
  "filter_invalid [] = Inr []"
| "filter_invalid (Inr d # xs) = Inl AttributeError"
| "filter_invalid (Inl x # xs) =
     (case filter_invalid xs of
        Inl e \<Rightarrow> Inl e
      | Inr ys \<Rightarrow>
          Inr (if - 1 \<notin> set [id_cpu x, physical_core x, numa_node x] then x # ys else ys))"

text \<open>
  \<open>lscpu\<close> is what \<open>json.loads(subprocess.check_output(...), object_hook=...)['cpus']\<close>
  gives before the hook is applied, or the exception of the three calls;
  \<open>allowed_cpu_id_list\<close> is \<open>os.sched_getaffinity(0)\<close>.
\<close>

definition get_allowed_cpu_memory_node_list ::
  "(json \<Rightarrow> int option) \<Rightarrow> string \<Rightarrow> error + json_obj list \<Rightarrow> int set
     \<Rightarrow> error + int list \<times> LogicalCPUInfo list" where
  "get_allowed_cpu_memory_node_list py_int platform_system lscpu allowed_cpu_id_list =
     (if platform_system \<noteq> ''Linux'' then Inl AssertionError
      else case lscpu of
        Inl e \<Rightarrow> Inl e
      | Inr cpus \<Rightarrow>
          (case filter_invalid (map (json_decoder py_int) cpus) of
             Inl e \<Rightarrow> Inl e
           | Inr valid \<Rightarrow>
               let logical_cpu_list = filter (\<lambda>x. id_cpu x \<in> allowed_cpu_id_list) valid;
                   allowed_numa_nodes = fold (\<lambda>x S. insert (numa_node x) S) logical_cpu_list {}
               in Inr (sorted_list_of_set allowed_numa_nodes, logical_cpu_list)))"

text \<open>
  An instance of \<open>py_int\<close> for the examples: Python's \<open>int\<close> on a JSON integer or
  boolean; on the other values of the examples (the string \<open>-\<close> that \<open>lscpu\<close> prints
  for a missing value, a list) \<open>int\<close> raises.
\<close>

definition int_of_json :: "json \<Rightarrow> int option" where
  "int_of_json v = (case v of JInt i \<Rightarrow> Some i | JBool b \<Rightarrow> Some (if b then 1 else 0) | _ \<Rightarrow> None)"

definition cpu_obj :: "json \<Rightarrow> json \<Rightarrow> json \<Rightarrow> json_obj" where
  "cpu_obj i c n = [''cpu'' \<mapsto> i, ''core'' \<mapsto> c, ''node'' \<mapsto> n]"

text \<open>
  A mocked \<open>lscpu\<close> answer: four logical CPUs on two cores and two NUMA nodes, the
  node of the last one printed as \<open>-\<close>.
\<close>

definition mock_cpus :: "json_obj list" where
  "mock_cpus =
     [cpu_obj (JInt 0) (JInt 0) (JInt 0), cpu_obj (JInt 1) (JInt 0) (JInt 0),
      cpu_obj (JInt 2) (JInt 1) (JInt 1), cpu_obj (JInt 3) (JInt 1) (JStr ''-'')]"

definition mock_parsed :: "LogicalCPUInfo list" where
  "mock_parsed =
     [\<lparr>id_cpu = 0, physical_core = 0, numa_node = 0\<rparr>,
      \<lparr>id_cpu = 1, physical_core = 0, numa_node = 0\<rparr>,
      \<lparr>id_cpu = 2, physical_core = 1, numa_node = 1\<rparr>,
      \<lparr>id_cpu = 3, physical_core = 1, numa_node = - 1\<rparr>]"

subsection \<open>The configuration that \<open>check_and_update_config\<close> updates\<close>

text \<open>
  \<open>VllmConfig\<close> and its parts are classes of \<open>vllm/config.py\<close>; the records hold the
  attributes that \<open>cpu.py\<close> reads or assigns. \<open>model_config\<close> and \<open>lora_config\<close> are
  compared with \<open>None\<close>, and \<open>cache_config\<close> is tested for truth before its block size
  is read, so the three are optional. \<open>use_inductor\<close> is read as an attribute of the
  compilation configuration and is a field here. \<open>CompilationLevel\<close> has the members
  that \<open>vllm/config.py\<close> gives it, pairwise different.
\<close>

datatype CompilationLevel = NO_COMPILATION | DYNAMO_AS_IS | DYNAMO_ONCE | PIECEWISE

datatype config_value = BoolV bool | IntV int | StrV string

datatype LoRAConfig = LoRAConfig

record ModelConfig =
  disable_cascade_attn :: bool
  dtype :: torch_dtype
  use_mla :: bool

record CacheConfig =
  block_size :: "int option"
  enable_prefix_caching :: bool
  cache_dtype :: string
  cpu_kvcache_space_bytes :: "int option"

record SchedulerConfig =
  chunked_prefill_enabled :: bool
  enable_chunked_prefill :: bool
  max_num_batched_tokens :: int
  max_model_len :: int

record ParallelConfig =
  world_size :: int
  distributed_executor_backend :: "string option"
  worker_cls :: string
  tensor_parallel_size :: int

record CompilationConfig =
  level :: CompilationLevel
  backend :: string
  custom_ops :: "string list"
  use_inductor :: bool
  inductor_compile_config :: "string \<rightharpoonup> config_value"
  cudagraph_capture_sizes :: "int list"

record DeviceConfig =
  device_type :: string

record VllmConfig =
  model_config :: "ModelConfig option"
  cache_config :: "CacheConfig option"
  scheduler_config :: SchedulerConfig
  parallel_config :: ParallelConfig
  compilation_config :: CompilationConfig
  lora_config :: "LoRAConfig option"
  device_config :: DeviceConfig

subsection \<open>The host\<close>

text \<open>
  What the function reads from outside the configuration and \<open>os.environ\<close>:
  \<open>ipex_available\<close> is \<open>find_spec("intel_extension_for_pytorch") is not None\<close>,
  \<open>VLLM_CPU_KVCACHE_SPACE\<close> the attribute of \<open>vllm.envs\<close>,
  \<open>DEFAULT_MAX_NUM_BATCHED_TOKENS\<close> the constant of \<open>vllm.utils\<close>,
  \<open>has_sched_getaffinity\<close> is \<open>hasattr(os, 'sched_getaffinity')\<close>, \<open>sched_getaffinity\<close>
  the (finite) set \<open>os.sched_getaffinity(0)\<close>, \<open>platform_system\<close> is
  \<open>platform.system()\<close>, \<open>cpu_count\<close> is \<open>os.cpu_count()\<close> and \<open>torch_num_threads\<close> is
  \<open>torch.get_num_threads()\<close>.
\<close>

record host =
  ipex_available :: bool
  VLLM_CPU_KVCACHE_SPACE :: "int option"
  DEFAULT_MAX_NUM_BATCHED_TOKENS :: int
  has_sched_getaffinity :: bool
  sched_getaffinity :: "int set"
  platform_system :: string
  cpu_count :: "int option"
  torch_num_threads :: int

text \<open>
  Modelled from the spec: \<open>GiB_bytes\<close> of \<open>vllm.utils\<close>, which is not among the
  sources; the spec gives the gibibyte as \<open>2^30\<close> bytes.
\<close>

definition GiB_bytes :: int where
  "GiB_bytes = 2 ^ 30"

definition str_optional_int :: "int option \<Rightarrow> string" where
  "str_optional_int v = (case v of None \<Rightarrow> ''None'' | Some n \<Rightarrow> str_int n)"

definition get_max_threads :: "host \<Rightarrow> error + int option" where
  "get_max_threads h =
     (if has_sched_getaffinity h then Inr (Some (int (card (sched_getaffinity h))))
      else if platform_system h = ''Darwin'' then Inr (cpu_count h)
      else Inl (NotImplementedError ''Unsupported OS''))"

definition get_device_total_memory :: "host \<Rightarrow> int" where
  "get_device_total_memory h =
     (case VLLM_CPU_KVCACHE_SPACE h of
        None \<Rightarrow> 4 * GiB_bytes
      | Some kv_cache_space \<Rightarrow> kv_cache_space * GiB_bytes)"

subsection \<open>State: the configuration, \<open>os.environ\<close> and the order of the writes\<close>

text \<open>
  The function mutates the configuration object and \<open>os.environ\<close> in place, so an
  exception leaves the writes made before it. The state also records every write, in
  order: the attribute assigned, or the environment variable set.
\<close>

datatype event = ConfigWrite string | EnvWrite string

record state =
  cfg :: VllmConfig
  environ :: "string \<rightharpoonup> string"
  trace :: "event list"

definition set_config :: "string \<Rightarrow> (VllmConfig \<Rightarrow> VllmConfig) \<Rightarrow> state \<Rightarrow> state" where
  "set_config attr f s = s\<lparr>cfg := f (cfg s), trace := trace s @ [ConfigWrite attr]\<rparr>"

definition set_environ :: "string \<Rightarrow> string \<Rightarrow> state \<Rightarrow> state" where
  "set_environ k v s = s\<lparr>environ := (environ s)(k \<mapsto> v), trace := trace s @ [EnvWrite k]\<rparr>"

text \<open>\<open>os.environ.get(k, d)\<close> and \<open>os.getenv(k, d)\<close>.\<close>

definition environ_get :: "(string \<rightharpoonup> string) \<Rightarrow> string \<Rightarrow> string \<Rightarrow> string" where
  "environ_get e k d = (case e k of Some v \<Rightarrow> v | None \<Rightarrow> d)"

definition in_model :: "(ModelConfig \<Rightarrow> ModelConfig) \<Rightarrow> VllmConfig \<Rightarrow> VllmConfig" where
  "in_model f c = c\<lparr>model_config := map_option f (model_config c)\<rparr>"

definition in_cache :: "(CacheConfig \<Rightarrow> CacheConfig) \<Rightarrow> VllmConfig \<Rightarrow> VllmConfig" where
  "in_cache f c = c\<lparr>cache_config := map_option f (cache_config c)\<rparr>"

definition in_scheduler :: "(SchedulerConfig \<Rightarrow> SchedulerConfig) \<Rightarrow> VllmConfig \<Rightarrow> VllmConfig" where
  "in_scheduler f c = c\<lparr>scheduler_config := f (scheduler_config c)\<rparr>"

definition in_parallel :: "(ParallelConfig \<Rightarrow> ParallelConfig) \<Rightarrow> VllmConfig \<Rightarrow> VllmConfig" where
  "in_parallel f c = c\<lparr>parallel_config := f (parallel_config c)\<rparr>"

definition in_compilation :: "(CompilationConfig \<Rightarrow> CompilationConfig) \<Rightarrow> VllmConfig \<Rightarrow> VllmConfig" where
  "in_compilation f c = c\<lparr>compilation_config := f (compilation_config c)\<rparr>"

text \<open>An exception ends the function; the state it leaves is kept beside it.\<close>

definition and_then ::
  "error option \<times> state \<Rightarrow> (state \<Rightarrow> error option \<times> state) \<Rightarrow> error option \<times> state" where
  "and_then r f = (case r of (None, s) \<Rightarrow> f s | (Some e, s) \<Rightarrow> (Some e, s))"

subsection \<open>\<open>CpuPlatform.check_and_update_config\<close>, statement by statement\<close>

text \<open>Lines 138 to 141: cascade attention is switched off when there is a model.\<close>

definition disable_cascade :: "state \<Rightarrow> state" where
  "disable_cascade s =
     (if model_config (cfg s) \<noteq> None
      then set_config ''model_config.disable_cascade_attn''
             (in_model (\<lambda>m. m\<lparr>disable_cascade_attn := True\<rparr>)) s
      else s)"

text \<open>
  Lines 143 to 153: the default block size, then the check of the block size. Where
  the extension is present, \<open>not ipex_available\<close> is false and the block size is not
  read.
\<close>

definition block_size_message :: "int option \<Rightarrow> string" where
  "block_size_message b =
     ''--block-size='' @ str_optional_int b @ '' requires intel_extension_for_pytorch''"

definition resolve_block_size :: "host \<Rightarrow> state \<Rightarrow> error option \<times> state" where
  "resolve_block_size h s =
     (let s' = (case cache_config (cfg s) of
                  None \<Rightarrow> s
                | Some cc \<Rightarrow>
                    if block_size cc = None
                    then set_config ''cache_config.block_size''
                           (in_cache (\<lambda>c. c\<lparr>block_size := Some (if ipex_available h then 128 else 16)\<rparr>)) s
                    else s)
      in if ipex_available h then (None, s')
         else case cache_config (cfg s') of
                None \<Rightarrow> (Some AttributeError, s')
              | Some cc \<Rightarrow>
                  if block_size cc \<noteq> Some 16
                  then (Some (RuntimeError (block_size_message (block_size cc))), s')
                  else (None, s'))"

text \<open>Lines 155 to 160: chunked prefill and prefix caching need the cache dtype \<open>auto\<close>.\<close>

definition fp8_message :: string where
  "fp8_message =
     ''Chunked-prefill and prefix-cache on the CPU backend is not compatible with FP8 KV cache.''"

definition check_fp8_compat :: "state \<Rightarrow> error option \<times> state" where
  "check_fp8_compat s =
     (case cache_config (cfg s) of
        None \<Rightarrow> (Some AttributeError, s)
      | Some cc \<Rightarrow>
          if (chunked_prefill_enabled (scheduler_config (cfg s)) \<or> enable_prefix_caching cc)
             \<and> cache_dtype cc \<noteq> ''auto''
          then (Some (RuntimeError fp8_message), s)
          else (None, s))"

text \<open>
  Lines 162 to 175. The statements after the check above run with a cache
  configuration: without one the check has raised.
\<close>

definition remap_fp8 :: "state \<Rightarrow> state" where
  "remap_fp8 s =
     (case cache_config (cfg s) of
        None \<Rightarrow> s
      | Some cc \<Rightarrow>
          if cache_dtype cc = ''fp8_e4m3''
          then set_config ''cache_config.cache_dtype''
                 (in_cache (\<lambda>c. c\<lparr>cache_dtype := ''fp8_e5m2''\<rparr>)) s
          else s)"

definition upgrade_dtype :: "state \<Rightarrow> state" where
  "upgrade_dtype s =
     (case cache_config (cfg s) of
        None \<Rightarrow> s
      | Some cc \<Rightarrow>
          (case model_config (cfg s) of
             None \<Rightarrow> s
           | Some m \<Rightarrow>
               if cache_dtype cc \<noteq> ''auto'' \<and> dtype m = float16
               then set_config ''model_config.dtype'' (in_model (\<lambda>m. m\<lparr>dtype := bfloat16\<rparr>)) s
               else s))"

definition set_kvcache_space :: "host \<Rightarrow> state \<Rightarrow> state" where
  "set_kvcache_space h s =
     set_config ''cache_config.cpu_kvcache_space_bytes''
       (in_cache (\<lambda>c. c\<lparr>cpu_kvcache_space_bytes := Some (get_device_total_memory h)\<rparr>)) s"

text \<open>Lines 177 to 190.\<close>

definition fallback_executor_backend :: "state \<Rightarrow> state" where
  "fallback_executor_backend s =
     (let p = parallel_config (cfg s)
      in if world_size p > 1 \<and> distributed_executor_backend p \<noteq> None
            \<and> distributed_executor_backend p \<noteq> Some ''mp''
         then set_config ''parallel_config.distributed_executor_backend''
                (in_parallel (\<lambda>p. p\<lparr>distributed_executor_backend := Some ''mp''\<rparr>)) s
         else s)"

definition CPUWorker :: string where
  "CPUWorker = ''vllm.v1.worker.cpu_worker.CPUWorker''"

definition bind_worker_cls :: "state \<Rightarrow> state" where
  "bind_worker_cls s =
     (if worker_cls (parallel_config (cfg s)) = ''auto''
      then set_config ''parallel_config.worker_cls'' (in_parallel (\<lambda>p. p\<lparr>worker_cls := CPUWorker\<rparr>)) s
      else s)"

definition clear_cudagraph_sizes :: "state \<Rightarrow> state" where
  "clear_cudagraph_sizes s =
     set_config ''compilation_config.cudagraph_capture_sizes''
       (in_compilation (\<lambda>c. c\<lparr>cudagraph_capture_sizes := []\<rparr>)) s"

text \<open>Lines 192 to 223: the piecewise level, then LoRA.\<close>

definition inductor_toggles :: "string \<rightharpoonup> config_value" where
  "inductor_toggles =
     [''dce'' \<mapsto> BoolV True, ''size_asserts'' \<mapsto> BoolV False,
      ''nan_asserts'' \<mapsto> BoolV False, ''epilogue_fusion'' \<mapsto> BoolV True]"

definition compile_piecewise :: "state \<Rightarrow> state" where
  "compile_piecewise s =
     (if level (compilation_config (cfg s)) = PIECEWISE
      then
        let backend_name =
              (if environ_get (environ s) ''VLLM_CPU_CI_ENV'' ''0'' \<noteq> ''0''
               then ''eager'' else ''inductor'');
            s1 = set_config ''compilation_config.level''
                   (in_compilation (\<lambda>c. c\<lparr>level := DYNAMO_ONCE\<rparr>)) s;
            s2 = set_config ''compilation_config.backend''
                   (in_compilation (\<lambda>c. c\<lparr>backend := backend_name\<rparr>)) s1;
            s3 = set_config ''compilation_config.inductor_compile_config''
                   (in_compilation
                      (\<lambda>c. c\<lparr>inductor_compile_config :=
                                inductor_compile_config c ++ inductor_toggles\<rparr>)) s2
        in if use_inductor (compilation_config (cfg s3))
           then set_config ''compilation_config.custom_ops''
                  (in_compilation (\<lambda>c. c\<lparr>custom_ops := [''none'']\<rparr>)) s3
           else s3
      else s)"

definition set_lora_level :: "state \<Rightarrow> state" where
  "set_lora_level s =
     (if lora_config (cfg s) \<noteq> None
      then set_config ''compilation_config.level''
             (in_compilation (\<lambda>c. c\<lparr>level := NO_COMPILATION\<rparr>)) s
      else s)"

text \<open>Line 225.\<close>

definition assert_device_type :: "state \<Rightarrow> error option \<times> state" where
  "assert_device_type s =
     (if device_type (device_config (cfg s)) = ''cpu'' then (None, s)
      else (Some AssertionError, s))"

text \<open>
  Lines 231 to 258: the environment variables. \<open>get_max_threads\<close> is called after the
  first variable is set.
\<close>

definition set_intel_openmp :: "state \<Rightarrow> state" where
  "set_intel_openmp s =
     set_environ ''KMP_REDUCTION_BARRIER_PATTERN'' ''dist,dist''
       (set_environ ''KMP_PLAIN_BARRIER_PATTERN'' ''dist,dist''
          (set_environ ''KMP_FORKJOIN_BARRIER_PATTERN'' ''dist,dist''
             (set_environ ''KMP_TPAUSE'' ''0''
                (set_environ ''KMP_BLOCKTIME'' ''1'' s))))"

definition set_environment :: "host \<Rightarrow> state \<Rightarrow> error option \<times> state" where
  "set_environment h s =
     (let s1 = set_environ ''VLLM_WORKER_MULTIPROC_METHOD'' ''spawn'' s
      in case get_max_threads h of
           Inl e \<Rightarrow> (Some e, s1)
         | Inr n \<Rightarrow>
             let s2 = set_environ ''NUMEXPR_MAX_THREADS'' (str_optional_int n) s1;
                 s3 = set_environ ''OMP_NUM_THREADS'' (str_int (torch_num_threads h)) s2;
                 s4 = set_environ ''TORCHINDUCTOR_COMPILE_THREADS'' ''1'' s3;
                 s5 = (if str_contains ''libiomp5.so'' (environ_get (environ s4) ''LD_PRELOAD'' [])
                       then set_intel_openmp s4 else s4)
             in (None,
                 set_environ ''LOCAL_WORLD_SIZE''
                   (str_int (tensor_parallel_size (parallel_config (cfg s5)))) s5))"

text \<open>Lines 260 to 268: multi-head latent attention.\<close>

definition force_mla :: "host \<Rightarrow> state \<Rightarrow> state" where
  "force_mla h s =
     (case model_config (cfg s) of
        None \<Rightarrow> s
      | Some m \<Rightarrow>
          if use_mla m
          then
            let s1 = set_config ''scheduler_config.enable_chunked_prefill''
                       (in_scheduler (\<lambda>c. c\<lparr>enable_chunked_prefill := False\<rparr>)) s;
                s2 = set_config ''scheduler_config.chunked_prefill_enabled''
                       (in_scheduler (\<lambda>c. c\<lparr>chunked_prefill_enabled := False\<rparr>)) s1
            in set_config ''scheduler_config.max_num_batched_tokens''
                 (in_scheduler
                    (\<lambda>c. c\<lparr>max_num_batched_tokens :=
                              max (max_model_len c) (DEFAULT_MAX_NUM_BATCHED_TOKENS h)\<rparr>)) s2
          else s)"

text \<open>The whole function, in the order of the source.\<close>

definition settle_config :: "host \<Rightarrow> state \<Rightarrow> state" where
  "settle_config h s =
     set_lora_level (compile_piecewise (clear_cudagraph_sizes (bind_worker_cls
       (fallback_executor_backend (set_kvcache_space h (upgrade_dtype (remap_fp8 s)))))))"

definition check_and_update_config :: "host \<Rightarrow> state \<Rightarrow> error option \<times> state" where
  "check_and_update_config h s =
     and_then (resolve_block_size h (disable_cascade s)) (\<lambda>s.
     and_then (check_fp8_compat s) (\<lambda>s.
     and_then (assert_device_type (settle_config h s)) (\<lambda>s.
     and_then (set_environment h s) (\<lambda>s. (None, force_mla h s)))))"

text \<open>A call on a configuration and an environment, with nothing written yet.\<close>

definition initial :: "VllmConfig \<Rightarrow> (string \<rightharpoonup> string) \<Rightarrow> state" where
  "initial c e = \<lparr>cfg = c, environ = e, trace = []\<rparr>"

text \<open>
  The attributes of the configuration written after the first environment variable
  was set, in a trace.
\<close>

fun is_config_write :: "event \<Rightarrow> bool" where
  "is_config_write (ConfigWrite a) = True"
| "is_config_write (EnvWrite k) = False"

fun config_writes :: "event list \<Rightarrow> string list" where
  "config_writes [] = []"
| "config_writes (ConfigWrite a # t) = a # config_writes t"
| "config_writes (EnvWrite k # t) = config_writes t"

definition config_writes_after_env :: "event list \<Rightarrow> string list" where
  "config_writes_after_env t = config_writes (dropWhile is_config_write t)"

subsection \<open>Example hosts and configurations\<close>

definition example_host :: host where
  "example_host =
     \<lparr>ipex_available = False, VLLM_CPU_KVCACHE_SPACE = None,
      DEFAULT_MAX_NUM_BATCHED_TOKENS = 2048, has_sched_getaffinity = True,
      sched_getaffinity = {0, 1, 2, 3}, platform_system = ''Linux'', cpu_count = Some 4,
      torch_num_threads = 4\<rparr>"

definition example_config :: VllmConfig where
  "example_config =
     \<lparr>model_config = Some \<lparr>disable_cascade_attn = False, dtype = float16, use_mla = False\<rparr>,
      cache_config = Some \<lparr>block_size = None, enable_prefix_caching = False,
                            cache_dtype = ''auto'', cpu_kvcache_space_bytes = None\<rparr>,
      scheduler_config = \<lparr>chunked_prefill_enabled = False, enable_chunked_prefill = False,
                          max_num_batched_tokens = 100000, max_model_len = 4096\<rparr>,
      parallel_config = \<lparr>world_size = 2, distributed_executor_backend = Some ''ray'',
                         worker_cls = ''auto'', tensor_parallel_size = 2\<rparr>,
      compilation_config = \<lparr>level = PIECEWISE, backend = [], custom_ops = [],
                            use_inductor = True, inductor_compile_config = Map.empty,
                            cudagraph_capture_sizes = [1, 2, 4]\<rparr>,
      lora_config = None,
      device_config = \<lparr>device_type = ''cpu''\<rparr>\<rparr>"

definition fp8_chunked_config :: VllmConfig where
  "fp8_chunked_config =
     example_config
       \<lparr>cache_config := Some \<lparr>block_size = Some 16, enable_prefix_caching = False,
                              cache_dtype = ''fp8_e4m3'', cpu_kvcache_space_bytes = None\<rparr>,
        scheduler_config := \<lparr>chunked_prefill_enabled = True, enable_chunked_prefill = True,
                            max_num_batched_tokens = 2048, max_model_len = 4096\<rparr>\<rparr>"

definition fp8_config :: VllmConfig where
  "fp8_config =
     example_config
       \<lparr>cache_config := Some \<lparr>block_size = Some 16, enable_prefix_caching = False,
                              cache_dtype = ''fp8_e4m3'', cpu_kvcache_space_bytes = None\<rparr>\<rparr>"

definition ipex_host :: host where
  "ipex_host = example_host\<lparr>ipex_available := True\<rparr>"

definition block32_config :: VllmConfig where
  "block32_config =
     example_config
       \<lparr>cache_config := Some \<lparr>block_size = Some 32, enable_prefix_caching = False,
                              cache_dtype = ''auto'', cpu_kvcache_space_bytes = None\<rparr>\<rparr>"

definition mla_config :: VllmConfig where
  "mla_config =
     example_config
       \<lparr>model_config := Some \<lparr>disable_cascade_attn = False, dtype = bfloat16, use_mla = True\<rparr>,
        cache_config := Some \<lparr>block_size = None, enable_prefix_caching = True,
                              cache_dtype = ''auto'', cpu_kvcache_space_bytes = None\<rparr>,
        scheduler_config := \<lparr>chunked_prefill_enabled = True, enable_chunked_prefill = True,
                            max_num_batched_tokens = 100000, max_model_len = 4096\<rparr>\<rparr>"

text \<open>
  \<open>only_config_writes s s'\<close>: the trace of \<open>s'\<close> is the trace of \<open>s\<close> followed by writes
  of configuration attributes only.
\<close>

definition only_config_writes :: "state \<Rightarrow> state \<Rightarrow> bool" where
  "only_config_writes s s' =
     (take (length (trace s)) (trace s') = trace s
      \<and> list_all is_config_write (drop (length (trace s)) (trace s')))"

text \<open>The three attributes that lines 264 to 268 assign.\<close>

definition mla_writes :: "string list" where
  "mla_writes =
     [''scheduler_config.enable_chunked_prefill'', ''scheduler_config.chunked_prefill_enabled'',
      ''scheduler_config.max_num_batched_tokens'']"

text \<open>\<open>model_config is not None and model_config.use_mla\<close>.\<close>

definition model_uses_mla :: "VllmConfig \<Rightarrow> bool" where
  "model_uses_mla c = (case model_config c of None \<Rightarrow> False | Some m \<Rightarrow> use_mla m)"

text \<open>The example configuration with LoRA.\<close>

definition lora_piecewise_config :: VllmConfig where
  "lora_piecewise_config = example_config\<lparr>lora_config := Some LoRAConfig\<rparr>"

section \<open>Properties of the capability functions\<close>

text \<open>
  C4: \<open>get_attn_backend_cls\<close> raises \<open>NotImplementedError\<close> whenever \<open>use_mla\<close> holds,
  whatever the selected backend and \<open>use_v1\<close> are; it raises \<open>ValueError\<close> whenever
  \<open>use_mla\<close> and \<open>use_v1\<close> are both false; and it returns a value exactly when \<open>use_mla\<close>
  is false and \<open>use_v1\<close> is true, the value then being the Torch SDPA backend for
  every selected backend, so that another selected backend is ignored and not rejected.
\<close>

theorem attn_backend_decision:
  "(mla \<longrightarrow>
      get_attn_backend_cls sb hs dt kv bs v1 mla =
        Inl (NotImplementedError ''MLA is not supported on CPU.''))
   \<and> (\<not> mla \<and> \<not> v1 \<longrightarrow>
      get_attn_backend_cls sb hs dt kv bs v1 mla =
        Inl (ValueError ''CPU backend only supports V1.''))
   \<and> ((\<exists>b. get_attn_backend_cls sb hs dt kv bs v1 mla = Inr b)
        \<longleftrightarrow> \<not> mla \<and> v1)
   \<and> (\<not> mla \<and> v1 \<longrightarrow>
      get_attn_backend_cls sb hs dt kv bs v1 mla = Inr TorchSDPABackend)"
  by (simp add: get_attn_backend_cls_def)

theorem attn_backend_decision_witness:
  "get_attn_backend_cls (Some (OTHER_BACKEND ''FLASH_ATTN'')) 64 float16 None 16 False True =
     Inl (NotImplementedError ''MLA is not supported on CPU.'')
   \<and> get_attn_backend_cls (Some (OTHER_BACKEND ''FLASH_ATTN'')) 64 float16 None 16 False False =
     Inl (ValueError ''CPU backend only supports V1.'')
   \<and> get_attn_backend_cls (Some (OTHER_BACKEND ''FLASH_ATTN'')) 64 float16 None 16 True False =
     Inr ''vllm.v1.attention.backends.cpu_attn.TorchSDPABackend''"
  using attn_backend_decision [of True "Some (OTHER_BACKEND ''FLASH_ATTN'')" 64 float16 None 16 False]
    attn_backend_decision [of False "Some (OTHER_BACKEND ''FLASH_ATTN'')" 64 float16 None 16 False]
    attn_backend_decision [of False "Some (OTHER_BACKEND ''FLASH_ATTN'')" 64 float16 None 16 True]
  by (simp add: TorchSDPABackend_def)

text \<open>
  C5: \<open>supported_dtypes\<close> is defined for every architecture and every value of
  \<open>sys.platform\<close>: it is bfloat16 and float32 on POWERPC, float16 and float32 on ARM
  under a platform whose name starts with \<open>darwin\<close>, and bfloat16, float16 and float32
  in every other case.
\<close>

theorem supported_dtypes_table:
  "(arch = POWERPC \<longrightarrow> supported_dtypes arch sys_platform = [bfloat16, float32])
   \<and> (arch = ARM \<and> startswith sys_platform ''darwin'' \<longrightarrow>
        supported_dtypes arch sys_platform = [float16, float32])
   \<and> (arch \<noteq> POWERPC \<and> \<not> (arch = ARM \<and> startswith sys_platform ''darwin'') \<longrightarrow>
        supported_dtypes arch sys_platform = [bfloat16, float16, float32])"
  by (auto simp add: supported_dtypes_def)

theorem supported_dtypes_table_witness:
  "supported_dtypes POWERPC ''linux'' = [bfloat16, float32]
   \<and> supported_dtypes ARM ''darwin'' = [float16, float32]
   \<and> supported_dtypes ARM ''linux'' = [bfloat16, float16, float32]
   \<and> supported_dtypes X86 ''darwin'' = [bfloat16, float16, float32]"
  using supported_dtypes_table [of POWERPC "''linux''"]
    supported_dtypes_table [of ARM "''darwin''"]
    supported_dtypes_table [of ARM "''linux''"]
    supported_dtypes_table [of X86 "''darwin''"]
  by (simp add: startswith_def)

text \<open>
  C10: the outcome of \<open>get_attn_backend_cls\<close>, a backend or an exception, is the
  same for two calls that agree on the selected backend, \<open>use_mla\<close> and \<open>use_v1\<close>,
  whatever their head sizes, dtypes, cache dtypes and block sizes are.
\<close>

theorem attn_backend_independent:
  "get_attn_backend_cls sb hs dt kv bs v1 mla =
   get_attn_backend_cls sb hs' dt' kv' bs' v1 mla"
  by (simp add: get_attn_backend_cls_def)

section \<open>Properties of topology discovery\<close>

lemma filter_invalid_parsed:
  "filter_invalid (map Inl parsed) =
     Inr (filter (\<lambda>x. id_cpu x \<noteq> - 1 \<and> physical_core x \<noteq> - 1 \<and> numa_node x \<noteq> - 1) parsed)"
  by (induction parsed) simp_all

lemma fold_insert_numa:
  "fold (\<lambda>x S. insert (numa_node x) S) xs S0 = numa_node ` set xs \<union> S0"
  by (induction xs arbitrary: S0) auto

lemma json_decoder_cpu_obj:
  "i \<noteq> JNull \<Longrightarrow> c \<noteq> JNull \<Longrightarrow> n \<noteq> JNull \<Longrightarrow>
   json_decoder py_int (cpu_obj i c n) =
     Inl \<lparr>id_cpu = LogicalCPUInfo_int py_int i, physical_core = LogicalCPUInfo_int py_int c,
          numa_node = LogicalCPUInfo_int py_int n\<rparr>"
  by (cases i; cases c; cases n) (simp_all add: json_decoder_def cpu_obj_def dict_get_def)

text \<open>
  C6, as the code has it: on Linux, for an \<open>lscpu\<close> answer whose entries all carry the
  three keys, so that they are parsed to the records \<open>parsed\<close>, discovery returns the
  records none of whose three fields is the sentinel \<open>-1\<close> (what \<open>_int\<close> gives for a
  value that \<open>int\<close> rejects) and whose id is in the affinity set, in the order of the
  answer, with the sorted list without duplicates of exactly their NUMA nodes. Where
  no parsed field is below \<open>-1\<close>, every field of a returned record is non-negative.
\<close>

theorem topology_filter:
  assumes "map (json_decoder py_int) cpus = map Inl parsed"
  shows "\<exists>nodes allowed.
     get_allowed_cpu_memory_node_list py_int ''Linux'' (Inr cpus) aff = Inr (nodes, allowed)
     \<and> allowed = filter (\<lambda>x. id_cpu x \<noteq> - 1 \<and> physical_core x \<noteq> - 1 \<and> numa_node x \<noteq> - 1
                             \<and> id_cpu x \<in> aff) parsed
     \<and> sorted nodes \<and> distinct nodes \<and> set nodes = numa_node ` set allowed
     \<and> ((\<forall>x\<in>set parsed. - 1 \<le> id_cpu x \<and> - 1 \<le> physical_core x \<and> - 1 \<le> numa_node x)
          \<longrightarrow> (\<forall>x\<in>set allowed. 0 \<le> id_cpu x \<and> 0 \<le> physical_core x \<and> 0 \<le> numa_node x))"
  using assms
  by (auto simp add: get_allowed_cpu_memory_node_list_def filter_invalid_parsed
      fold_insert_numa Let_def)

theorem topology_filter_witness:
  "map (json_decoder int_of_json) mock_cpus = map Inl mock_parsed
   \<and> get_allowed_cpu_memory_node_list int_of_json ''Linux'' (Inr mock_cpus) {0, 2} =
       Inr ([0, 1], [\<lparr>id_cpu = 0, physical_core = 0, numa_node = 0\<rparr>,
                     \<lparr>id_cpu = 2, physical_core = 1, numa_node = 1\<rparr>])"
  using topology_filter [of int_of_json mock_cpus mock_parsed "{0, 2}"]
  by (simp add: mock_cpus_def mock_parsed_def get_allowed_cpu_memory_node_list_def
      json_decoder_cpu_obj LogicalCPUInfo_int_def int_of_json_def fold_insert_numa)

text \<open>
  C6 as the spec states it fails: a core id parsed to \<open>-2\<close> is no non-negative
  integer, and the logical CPU is returned all the same.
\<close>

theorem topology_negative_core_counterexample:
  "get_allowed_cpu_memory_node_list int_of_json ''Linux''
     (Inr [cpu_obj (JInt 0) (JInt (- 2)) (JInt 0)]) {0} =
   Inr ([0], [\<lparr>id_cpu = 0, physical_core = - 2, numa_node = 0\<rparr>])"
  by (simp add: get_allowed_cpu_memory_node_list_def json_decoder_cpu_obj
      LogicalCPUInfo_int_def int_of_json_def)

section \<open>Properties of \<open>check_and_update_config\<close>\<close>

subsection \<open>What every statement does to the configuration\<close>

lemma set_config_simps [simp]:
  "cfg (set_config a f s) = f (cfg s)"
  "environ (set_config a f s) = environ s"
  "trace (set_config a f s) = trace s @ [ConfigWrite a]"
  by (simp_all add: set_config_def)

lemma set_environ_simps [simp]:
  "cfg (set_environ k v s) = cfg s"
  "environ (set_environ k v s) = (environ s)(k \<mapsto> v)"
  "trace (set_environ k v s) = trace s @ [EnvWrite k]"
  by (simp_all add: set_environ_def)

lemma in_model_simps [simp]:
  "model_config (in_model f c) = map_option f (model_config c)"
  "cache_config (in_model f c) = cache_config c"
  "scheduler_config (in_model f c) = scheduler_config c"
  "parallel_config (in_model f c) = parallel_config c"
  "compilation_config (in_model f c) = compilation_config c"
  "lora_config (in_model f c) = lora_config c"
  "device_config (in_model f c) = device_config c"
  by (simp_all add: in_model_def)

lemma in_cache_simps [simp]:
  "model_config (in_cache f c) = model_config c"
  "cache_config (in_cache f c) = map_option f (cache_config c)"
  "scheduler_config (in_cache f c) = scheduler_config c"
  "parallel_config (in_cache f c) = parallel_config c"
  "compilation_config (in_cache f c) = compilation_config c"
  "lora_config (in_cache f c) = lora_config c"
  "device_config (in_cache f c) = device_config c"
  by (simp_all add: in_cache_def)

lemma in_scheduler_simps [simp]:
  "model_config (in_scheduler f c) = model_config c"
  "cache_config (in_scheduler f c) = cache_config c"
  "scheduler_config (in_scheduler f c) = f (scheduler_config c)"
  "parallel_config (in_scheduler f c) = parallel_config c"
  "compilation_config (in_scheduler f c) = compilation_config c"
  "lora_config (in_scheduler f c) = lora_config c"
  "device_config (in_scheduler f c) = device_config c"
  by (simp_all add: in_scheduler_def)

lemma in_parallel_simps [simp]:
  "model_config (in_parallel f c) = model_config c"
  "cache_config (in_parallel f c) = cache_config c"
  "scheduler_config (in_parallel f c) = scheduler_config c"
  "parallel_config (in_parallel f c) = f (parallel_config c)"
  "compilation_config (in_parallel f c) = compilation_config c"
  "lora_config (in_parallel f c) = lora_config c"
  "device_config (in_parallel f c) = device_config c"
  by (simp_all add: in_parallel_def)

lemma in_compilation_simps [simp]:
  "model_config (in_compilation f c) = model_config c"
  "cache_config (in_compilation f c) = cache_config c"
  "scheduler_config (in_compilation f c) = scheduler_config c"
  "parallel_config (in_compilation f c) = parallel_config c"
  "compilation_config (in_compilation f c) = f (compilation_config c)"
  "lora_config (in_compilation f c) = lora_config c"
  "device_config (in_compilation f c) = device_config c"
  by (simp_all add: in_compilation_def)

lemma disable_cascade_cfg [simp]:
  "model_config (cfg (disable_cascade s)) =
     map_option (\<lambda>m. m\<lparr>disable_cascade_attn := True\<rparr>) (model_config (cfg s))"
  "cache_config (cfg (disable_cascade s)) = cache_config (cfg s)"
  "scheduler_config (cfg (disable_cascade s)) = scheduler_config (cfg s)"
  "parallel_config (cfg (disable_cascade s)) = parallel_config (cfg s)"
  "compilation_config (cfg (disable_cascade s)) = compilation_config (cfg s)"
  "lora_config (cfg (disable_cascade s)) = lora_config (cfg s)"
  "device_config (cfg (disable_cascade s)) = device_config (cfg s)"
  "environ (disable_cascade s) = environ s"
  by (auto simp add: disable_cascade_def)

lemma resolve_block_size_cfg [simp]:
  "model_config (cfg (snd (resolve_block_size h s))) = model_config (cfg s)"
  "cache_config (cfg (snd (resolve_block_size h s))) =
     map_option (\<lambda>c. if block_size c = None
                      then c\<lparr>block_size := Some (if ipex_available h then 128 else 16)\<rparr> else c)
       (cache_config (cfg s))"
  "scheduler_config (cfg (snd (resolve_block_size h s))) = scheduler_config (cfg s)"
  "parallel_config (cfg (snd (resolve_block_size h s))) = parallel_config (cfg s)"
  "compilation_config (cfg (snd (resolve_block_size h s))) = compilation_config (cfg s)"
  "lora_config (cfg (snd (resolve_block_size h s))) = lora_config (cfg s)"
  "device_config (cfg (snd (resolve_block_size h s))) = device_config (cfg s)"
  "environ (snd (resolve_block_size h s)) = environ s"
  by (auto simp add: resolve_block_size_def Let_def split: option.splits)

lemma resolve_block_size_error:
  "fst (resolve_block_size h s) =
     (if ipex_available h then None
      else case cache_config (cfg s) of
             None \<Rightarrow> Some AttributeError
           | Some cc \<Rightarrow>
               if block_size cc = None \<or> block_size cc = Some 16 then None
               else Some (RuntimeError (block_size_message (block_size cc))))"
  by (auto simp add: resolve_block_size_def Let_def split: option.splits)

lemma check_fp8_compat_simps [simp]:
  "snd (check_fp8_compat s) = s"
  "fst (check_fp8_compat s) =
     (case cache_config (cfg s) of
        None \<Rightarrow> Some AttributeError
      | Some cc \<Rightarrow>
          if (chunked_prefill_enabled (scheduler_config (cfg s)) \<or> enable_prefix_caching cc)
             \<and> cache_dtype cc \<noteq> ''auto''
          then Some (RuntimeError fp8_message) else None)"
  by (simp_all add: check_fp8_compat_def split: option.splits)

lemma remap_fp8_cfg [simp]:
  "cache_config (cfg (remap_fp8 s)) =
     map_option (\<lambda>c. if cache_dtype c = ''fp8_e4m3'' then c\<lparr>cache_dtype := ''fp8_e5m2''\<rparr> else c)
       (cache_config (cfg s))"
  "model_config (cfg (remap_fp8 s)) = model_config (cfg s)"
  "scheduler_config (cfg (remap_fp8 s)) = scheduler_config (cfg s)"
  "parallel_config (cfg (remap_fp8 s)) = parallel_config (cfg s)"
  "compilation_config (cfg (remap_fp8 s)) = compilation_config (cfg s)"
  "lora_config (cfg (remap_fp8 s)) = lora_config (cfg s)"
  "device_config (cfg (remap_fp8 s)) = device_config (cfg s)"
  "environ (remap_fp8 s) = environ s"
  by (auto simp add: remap_fp8_def split: option.splits)

lemma upgrade_dtype_cfg [simp]:
  "model_config (cfg (upgrade_dtype s)) =
     (case cache_config (cfg s) of
        None \<Rightarrow> model_config (cfg s)
      | Some cc \<Rightarrow>
          map_option (\<lambda>m. if cache_dtype cc \<noteq> ''auto'' \<and> dtype m = float16
                           then m\<lparr>dtype := bfloat16\<rparr> else m) (model_config (cfg s)))"
  "cache_config (cfg (upgrade_dtype s)) = cache_config (cfg s)"
  "scheduler_config (cfg (upgrade_dtype s)) = scheduler_config (cfg s)"
  "parallel_config (cfg (upgrade_dtype s)) = parallel_config (cfg s)"
  "compilation_config (cfg (upgrade_dtype s)) = compilation_config (cfg s)"
  "lora_config (cfg (upgrade_dtype s)) = lora_config (cfg s)"
  "device_config (cfg (upgrade_dtype s)) = device_config (cfg s)"
  "environ (upgrade_dtype s) = environ s"
  by (auto simp add: upgrade_dtype_def split: option.splits)

lemma set_kvcache_space_cfg [simp]:
  "cache_config (cfg (set_kvcache_space h s)) =
     map_option (\<lambda>c. c\<lparr>cpu_kvcache_space_bytes := Some (get_device_total_memory h)\<rparr>)
       (cache_config (cfg s))"
  "model_config (cfg (set_kvcache_space h s)) = model_config (cfg s)"
  "scheduler_config (cfg (set_kvcache_space h s)) = scheduler_config (cfg s)"
  "parallel_config (cfg (set_kvcache_space h s)) = parallel_config (cfg s)"
  "compilation_config (cfg (set_kvcache_space h s)) = compilation_config (cfg s)"
  "lora_config (cfg (set_kvcache_space h s)) = lora_config (cfg s)"
  "device_config (cfg (set_kvcache_space h s)) = device_config (cfg s)"
  "environ (set_kvcache_space h s) = environ s"
  by (simp_all add: set_kvcache_space_def)

lemma fallback_executor_backend_cfg [simp]:
  "parallel_config (cfg (fallback_executor_backend s)) =
     (let p = parallel_config (cfg s)
      in if world_size p > 1 \<and> distributed_executor_backend p \<noteq> None
            \<and> distributed_executor_backend p \<noteq> Some ''mp''
         then p\<lparr>distributed_executor_backend := Some ''mp''\<rparr> else p)"
  "model_config (cfg (fallback_executor_backend s)) = model_config (cfg s)"
  "cache_config (cfg (fallback_executor_backend s)) = cache_config (cfg s)"
  "scheduler_config (cfg (fallback_executor_backend s)) = scheduler_config (cfg s)"
  "compilation_config (cfg (fallback_executor_backend s)) = compilation_config (cfg s)"
  "lora_config (cfg (fallback_executor_backend s)) = lora_config (cfg s)"
  "device_config (cfg (fallback_executor_backend s)) = device_config (cfg s)"
  "environ (fallback_executor_backend s) = environ s"
  by (simp_all add: fallback_executor_backend_def Let_def)

lemma bind_worker_cls_cfg [simp]:
  "parallel_config (cfg (bind_worker_cls s)) =
     (let p = parallel_config (cfg s)
      in if worker_cls p = ''auto'' then p\<lparr>worker_cls := CPUWorker\<rparr> else p)"
  "model_config (cfg (bind_worker_cls s)) = model_config (cfg s)"
  "cache_config (cfg (bind_worker_cls s)) = cache_config (cfg s)"
  "scheduler_config (cfg (bind_worker_cls s)) = scheduler_config (cfg s)"
  "compilation_config (cfg (bind_worker_cls s)) = compilation_config (cfg s)"
  "lora_config (cfg (bind_worker_cls s)) = lora_config (cfg s)"
  "device_config (cfg (bind_worker_cls s)) = device_config (cfg s)"
  "environ (bind_worker_cls s) = environ s"
  by (simp_all add: bind_worker_cls_def Let_def)

lemma clear_cudagraph_sizes_cfg [simp]:
  "compilation_config (cfg (clear_cudagraph_sizes s)) =
     (compilation_config (cfg s))\<lparr>cudagraph_capture_sizes := []\<rparr>"
  "model_config (cfg (clear_cudagraph_sizes s)) = model_config (cfg s)"
  "cache_config (cfg (clear_cudagraph_sizes s)) = cache_config (cfg s)"
  "scheduler_config (cfg (clear_cudagraph_sizes s)) = scheduler_config (cfg s)"
  "parallel_config (cfg (clear_cudagraph_sizes s)) = parallel_config (cfg s)"
  "lora_config (cfg (clear_cudagraph_sizes s)) = lora_config (cfg s)"
  "device_config (cfg (clear_cudagraph_sizes s)) = device_config (cfg s)"
  "environ (clear_cudagraph_sizes s) = environ s"
  by (simp_all add: clear_cudagraph_sizes_def)

lemma compile_piecewise_cfg [simp]:
  "compilation_config (cfg (compile_piecewise s)) =
     (let c = compilation_config (cfg s)
      in if level c = PIECEWISE
         then c\<lparr>level := DYNAMO_ONCE,
                backend := (if environ_get (environ s) ''VLLM_CPU_CI_ENV'' ''0'' \<noteq> ''0''
                            then ''eager'' else ''inductor''),
                inductor_compile_config := inductor_compile_config c ++ inductor_toggles,
                custom_ops := (if use_inductor c then [''none''] else custom_ops c)\<rparr>
         else c)"
  "model_config (cfg (compile_piecewise s)) = model_config (cfg s)"
  "cache_config (cfg (compile_piecewise s)) = cache_config (cfg s)"
  "scheduler_config (cfg (compile_piecewise s)) = scheduler_config (cfg s)"
  "parallel_config (cfg (compile_piecewise s)) = parallel_config (cfg s)"
  "lora_config (cfg (compile_piecewise s)) = lora_config (cfg s)"
  "device_config (cfg (compile_piecewise s)) = device_config (cfg s)"
  "environ (compile_piecewise s) = environ s"
  by (simp_all add: compile_piecewise_def Let_def)

lemma set_lora_level_cfg [simp]:
  "compilation_config (cfg (set_lora_level s)) =
     (if lora_config (cfg s) \<noteq> None
      then (compilation_config (cfg s))\<lparr>level := NO_COMPILATION\<rparr>
      else compilation_config (cfg s))"
  "model_config (cfg (set_lora_level s)) = model_config (cfg s)"
  "cache_config (cfg (set_lora_level s)) = cache_config (cfg s)"
  "scheduler_config (cfg (set_lora_level s)) = scheduler_config (cfg s)"
  "parallel_config (cfg (set_lora_level s)) = parallel_config (cfg s)"
  "lora_config (cfg (set_lora_level s)) = lora_config (cfg s)"
  "device_config (cfg (set_lora_level s)) = device_config (cfg s)"
  "environ (set_lora_level s) = environ s"
  by (simp_all add: set_lora_level_def)

lemma assert_device_type_simps [simp]:
  "snd (assert_device_type s) = s"
  "fst (assert_device_type s) =
     (if device_type (device_config (cfg s)) = ''cpu'' then None else Some AssertionError)"
  by (simp_all add: assert_device_type_def)

lemma set_intel_openmp_cfg [simp]:
  "cfg (set_intel_openmp s) = cfg s"
  by (simp add: set_intel_openmp_def)

lemma set_environment_simps [simp]:
  "cfg (snd (set_environment h s)) = cfg s"
  "fst (set_environment h s) = (case get_max_threads h of Inl e \<Rightarrow> Some e | Inr n \<Rightarrow> None)"
  by (simp_all add: set_environment_def Let_def split: sum.splits)

lemma force_mla_cfg [simp]:
  "scheduler_config (cfg (force_mla h s)) =
     (let c = scheduler_config (cfg s)
      in case model_config (cfg s) of
           None \<Rightarrow> c
         | Some m \<Rightarrow>
             if use_mla m
             then c\<lparr>enable_chunked_prefill := False, chunked_prefill_enabled := False,
                    max_num_batched_tokens :=
                      max (max_model_len c) (DEFAULT_MAX_NUM_BATCHED_TOKENS h)\<rparr>
             else c)"
  "model_config (cfg (force_mla h s)) = model_config (cfg s)"
  "cache_config (cfg (force_mla h s)) = cache_config (cfg s)"
  "parallel_config (cfg (force_mla h s)) = parallel_config (cfg s)"
  "compilation_config (cfg (force_mla h s)) = compilation_config (cfg s)"
  "lora_config (cfg (force_mla h s)) = lora_config (cfg s)"
  "device_config (cfg (force_mla h s)) = device_config (cfg s)"
  "environ (force_mla h s) = environ s"
  by (simp_all add: force_mla_def Let_def split: option.splits)

lemma and_then_unfold:
  "and_then r f = (if fst r \<noteq> None then r else f (snd r))"
  by (cases r) (auto simp add: and_then_def)

lemma check_and_update_config_unfold:
  "check_and_update_config h s =
     (let r1 = resolve_block_size h (disable_cascade s)
      in if fst r1 \<noteq> None then r1
         else let r2 = check_fp8_compat (snd r1)
              in if fst r2 \<noteq> None then r2
                 else let r3 = assert_device_type (settle_config h (snd r2))
                      in if fst r3 \<noteq> None then r3
                         else let r4 = set_environment h (snd r3)
                              in if fst r4 \<noteq> None then r4
                                 else (None, force_mla h (snd r4)))"
  unfolding check_and_update_config_def and_then_unfold Let_def ..

lemma settle_config_cfg [simp]:
  "model_config (cfg (settle_config h s)) = model_config (cfg (upgrade_dtype (remap_fp8 s)))"
  "cache_config (cfg (settle_config h s)) =
     map_option (\<lambda>c. c\<lparr>cpu_kvcache_space_bytes := Some (get_device_total_memory h)\<rparr>)
       (cache_config (cfg (remap_fp8 s)))"
  "scheduler_config (cfg (settle_config h s)) = scheduler_config (cfg s)"
  "parallel_config (cfg (settle_config h s)) =
     parallel_config (cfg (bind_worker_cls (fallback_executor_backend s)))"
  "compilation_config (cfg (settle_config h s)) =
     compilation_config (cfg (set_lora_level (compile_piecewise (clear_cudagraph_sizes s))))"
  "lora_config (cfg (settle_config h s)) = lora_config (cfg s)"
  "device_config (cfg (settle_config h s)) = device_config (cfg s)"
  "environ (settle_config h s) = environ s"
  by (simp_all add: settle_config_def Let_def)

lemma check_and_update_config_error:
  "fst (check_and_update_config h s) =
     (case cache_config (cfg s) of
        None \<Rightarrow> Some AttributeError
      | Some cc \<Rightarrow>
          if \<not> ipex_available h \<and> block_size cc \<noteq> None \<and> block_size cc \<noteq> Some 16
          then Some (RuntimeError (block_size_message (block_size cc)))
          else if (chunked_prefill_enabled (scheduler_config (cfg s)) \<or> enable_prefix_caching cc)
                  \<and> cache_dtype cc \<noteq> ''auto''
          then Some (RuntimeError fp8_message)
          else if device_type (device_config (cfg s)) \<noteq> ''cpu'' then Some AssertionError
          else (case get_max_threads h of Inl e \<Rightarrow> Some e | Inr n \<Rightarrow> None))"
  by (auto simp add: check_and_update_config_unfold Let_def resolve_block_size_error
      split: option.splits sum.splits)

subsection \<open>The cache block size and the cache dtype\<close>

text \<open>
  C3: with the block size unset, \<open>check_and_update_config\<close> sets it to 128 when
  \<open>intel_extension_for_pytorch\<close> is found and to 16 otherwise, and raises no error
  about the block size; with the block size set to a value other than 16 and the
  extension absent, it raises the \<open>RuntimeError\<close> of lines 151 to 153.
\<close>

theorem block_size_resolution:
  assumes "cache_config (cfg s) = Some cc"
  shows "(block_size cc = None \<longrightarrow>
            map_option block_size (cache_config (cfg (snd (check_and_update_config h s))))
              = Some (Some (if ipex_available h then 128 else 16))
            \<and> (\<forall>b. fst (check_and_update_config h s) \<noteq> Some (RuntimeError (block_size_message b))))
       \<and> (\<not> ipex_available h \<and> block_size cc \<noteq> None \<and> block_size cc \<noteq> Some 16 \<longrightarrow>
            fst (check_and_update_config h s)
              = Some (RuntimeError (block_size_message (block_size cc))))"
proof -
  have "map_option block_size (cache_config (cfg (snd (check_and_update_config h s))))
          = Some (Some (if ipex_available h then 128 else 16))"
    if "block_size cc = None"
    using that assms
    by (auto simp add: check_and_update_config_unfold resolve_block_size_error Let_def)
  moreover have "fst (check_and_update_config h s) \<noteq> Some (RuntimeError (block_size_message b))"
    if "block_size cc = None" for b
    using that assms
    by (auto simp add: check_and_update_config_error block_size_message_def fp8_message_def
        get_max_threads_def split: sum.splits)
  moreover have "fst (check_and_update_config h s)
          = Some (RuntimeError (block_size_message (block_size cc)))"
    if "\<not> ipex_available h \<and> block_size cc \<noteq> None \<and> block_size cc \<noteq> Some 16"
    using that assms by (simp add: check_and_update_config_error)
  ultimately show ?thesis by blast
qed

theorem block_size_resolution_witness:
  "map_option block_size
     (cache_config (cfg (snd (check_and_update_config example_host (initial example_config Map.empty)))))
     = Some (Some 16)
   \<and> map_option block_size
     (cache_config (cfg (snd (check_and_update_config ipex_host (initial example_config Map.empty)))))
     = Some (Some 128)
   \<and> fst (check_and_update_config example_host (initial block32_config Map.empty))
     = Some (RuntimeError ''--block-size=32 requires intel_extension_for_pytorch'')"
  using block_size_resolution [of "initial example_config Map.empty"
      "\<lparr>block_size = None, enable_prefix_caching = False,
        cache_dtype = ''auto'', cpu_kvcache_space_bytes = None\<rparr>" example_host]
    block_size_resolution [of "initial example_config Map.empty"
      "\<lparr>block_size = None, enable_prefix_caching = False,
        cache_dtype = ''auto'', cpu_kvcache_space_bytes = None\<rparr>" ipex_host]
    block_size_resolution [of "initial block32_config Map.empty"
      "\<lparr>block_size = Some 32, enable_prefix_caching = False,
        cache_dtype = ''auto'', cpu_kvcache_space_bytes = None\<rparr>" example_host]
  by (simp add: initial_def example_config_def block32_config_def example_host_def ipex_host_def
      block_size_message_def str_optional_int_def str_int_def str_nat.simps digit_char_def)

text \<open>
  C1, as the code has it: for a configuration whose cache dtype is \<open>fp8_e4m3\<close> and
  whose block size passes the check of lines 150 to 153, \<open>check_and_update_config\<close>
  raises the \<open>RuntimeError\<close> of lines 156 to 160 and leaves the dtype as it is when
  chunked prefill or prefix caching is enabled; otherwise it rewrites the dtype to
  \<open>fp8_e5m2\<close> and raises no \<open>RuntimeError\<close>.
\<close>

theorem fp8_remap:
  assumes "cache_config (cfg s) = Some cc" and "cache_dtype cc = ''fp8_e4m3''"
    and "ipex_available h \<or> block_size cc = None \<or> block_size cc = Some 16"
  shows "if chunked_prefill_enabled (scheduler_config (cfg s)) \<or> enable_prefix_caching cc
         then fst (check_and_update_config h s) = Some (RuntimeError fp8_message)
              \<and> map_option cache_dtype (cache_config (cfg (snd (check_and_update_config h s))))
                  = Some ''fp8_e4m3''
         else map_option cache_dtype (cache_config (cfg (snd (check_and_update_config h s))))
                = Some ''fp8_e5m2''
              \<and> (\<forall>msg. fst (check_and_update_config h s) \<noteq> Some (RuntimeError msg))"
proof (cases "chunked_prefill_enabled (scheduler_config (cfg s)) \<or> enable_prefix_caching cc")
  case True
  with assms show ?thesis
    by (auto simp add: check_and_update_config_error check_and_update_config_unfold
        resolve_block_size_error Let_def)
next
  case False
  with assms have "\<forall>msg. fst (check_and_update_config h s) \<noteq> Some (RuntimeError msg)"
    by (auto simp add: check_and_update_config_error get_max_threads_def split: sum.splits)
  moreover from False assms
  have "map_option cache_dtype (cache_config (cfg (snd (check_and_update_config h s))))
          = Some ''fp8_e5m2''"
    by (auto simp add: check_and_update_config_unfold resolve_block_size_error Let_def)
  ultimately show ?thesis using False by simp
qed

theorem fp8_remap_witness:
  "map_option cache_dtype
     (cache_config (cfg (snd (check_and_update_config example_host (initial fp8_config Map.empty)))))
     = Some ''fp8_e5m2''
   \<and> fst (check_and_update_config example_host (initial fp8_config Map.empty)) = None"
  using fp8_remap [of "initial fp8_config Map.empty"
      "\<lparr>block_size = Some 16, enable_prefix_caching = False,
        cache_dtype = ''fp8_e4m3'', cpu_kvcache_space_bytes = None\<rparr>" example_host]
  by (simp add: initial_def fp8_config_def example_config_def example_host_def
      check_and_update_config_error get_max_threads_def)

text \<open>
  C1 as the spec states it fails: with chunked prefill enabled, the cache dtype
  \<open>fp8_e4m3\<close> is rejected before line 162 is reached, and it is not rewritten.
\<close>

theorem fp8_chunked_counterexample:
  "fst (check_and_update_config example_host (initial fp8_chunked_config Map.empty))
     = Some (RuntimeError fp8_message)
   \<and> map_option cache_dtype
       (cache_config (cfg (snd (check_and_update_config example_host
          (initial fp8_chunked_config Map.empty))))) = Some ''fp8_e4m3''"
  by (simp add: initial_def fp8_chunked_config_def example_config_def example_host_def
      check_and_update_config_unfold resolve_block_size_error Let_def)

subsection \<open>A call that returns, and a call that raises\<close>

lemma check_and_update_config_success:
  "fst (check_and_update_config h s) = None \<Longrightarrow>
   snd (check_and_update_config h s) =
     force_mla h (snd (set_environment h (settle_config h (snd (resolve_block_size h (disable_cascade s))))))"
  by (simp add: check_and_update_config_unfold Let_def split: if_splits)

lemma success_conditions:
  assumes "fst (check_and_update_config h s) = None"
  obtains cc n where "cache_config (cfg s) = Some cc"
    and "ipex_available h \<or> block_size cc = None \<or> block_size cc = Some 16"
    and "cache_dtype cc = ''auto'' \<or>
         \<not> chunked_prefill_enabled (scheduler_config (cfg s)) \<and> \<not> enable_prefix_caching cc"
    and "device_type (device_config (cfg s)) = ''cpu''"
    and "get_max_threads h = Inr n"
  using assms
  by (auto simp add: check_and_update_config_error split: option.splits if_splits sum.splits)

lemma check_and_update_config_failure:
  "fst (check_and_update_config h s) \<noteq> None \<Longrightarrow>
   snd (check_and_update_config h s) = snd (resolve_block_size h (disable_cascade s))
   \<or> snd (check_and_update_config h s)
       = settle_config h (snd (resolve_block_size h (disable_cascade s)))
   \<or> snd (check_and_update_config h s)
       = snd (set_environment h (settle_config h (snd (resolve_block_size h (disable_cascade s)))))
     \<and> fst (check_and_update_config h s) \<noteq> None"
  by (simp add: check_and_update_config_unfold Let_def split: if_splits)

subsection \<open>Multi-head latent attention and the compilation level\<close>

text \<open>
  C2, as the code has it: for a configuration whose model uses multi-head latent
  attention, after \<open>check_and_update_config\<close> has returned without an exception both
  chunked-prefill flags of the scheduler are false and \<open>max_num_batched_tokens\<close> is
  the larger of \<open>max_model_len\<close> and \<open>DEFAULT_MAX_NUM_BATCHED_TOKENS\<close>, whatever it was
  before.
\<close>

theorem mla_scheduler:
  assumes "model_config (cfg s) = Some m" and "use_mla m"
    and "fst (check_and_update_config h s) = None"
  shows "\<not> enable_chunked_prefill (scheduler_config (cfg (snd (check_and_update_config h s))))
     \<and> \<not> chunked_prefill_enabled (scheduler_config (cfg (snd (check_and_update_config h s))))
     \<and> max_num_batched_tokens (scheduler_config (cfg (snd (check_and_update_config h s))))
         = max (max_model_len (scheduler_config (cfg s))) (DEFAULT_MAX_NUM_BATCHED_TOKENS h)
     \<and> max_model_len (scheduler_config (cfg (snd (check_and_update_config h s))))
         = max_model_len (scheduler_config (cfg s))"
  using assms
  by (simp add: check_and_update_config_success Let_def split: option.splits)

theorem mla_scheduler_witness:
  "fst (check_and_update_config example_host (initial mla_config Map.empty)) = None
   \<and> scheduler_config (cfg (snd (check_and_update_config example_host (initial mla_config Map.empty))))
      = \<lparr>chunked_prefill_enabled = False, enable_chunked_prefill = False,
         max_num_batched_tokens = 4096, max_model_len = 4096\<rparr>"
  using mla_scheduler [of "initial mla_config Map.empty"
      "\<lparr>disable_cascade_attn = False, dtype = bfloat16, use_mla = True\<rparr>" example_host]
  by (simp add: initial_def mla_config_def example_config_def example_host_def
      check_and_update_config_error check_and_update_config_success get_max_threads_def)

text \<open>
  C2 as the spec states it fails: the call returns, prefix caching is still enabled,
  and the budget of batched tokens has gone down from 100000 to 4096.
\<close>

theorem mla_prefix_caching_counterexample:
  "fst (check_and_update_config example_host (initial mla_config Map.empty)) = None
   \<and> map_option enable_prefix_caching
       (cache_config (cfg (snd (check_and_update_config example_host (initial mla_config Map.empty)))))
       = Some True
   \<and> max_num_batched_tokens (scheduler_config (cfg (initial mla_config Map.empty))) = 100000
   \<and> max_num_batched_tokens
       (scheduler_config (cfg (snd (check_and_update_config example_host (initial mla_config Map.empty)))))
       = 4096"
  by (simp add: initial_def mla_config_def example_config_def example_host_def
      check_and_update_config_error check_and_update_config_success get_max_threads_def)

text \<open>
  C9, as the code has it: for a configuration at the piecewise level on which
  \<open>check_and_update_config\<close> returns without an exception, the level ends as
  \<open>DYNAMO_ONCE\<close> without LoRA and as \<open>NO_COMPILATION\<close> with it, the backend is
  \<open>eager\<close> when \<open>VLLM_CPU_CI_ENV\<close> is set to something other than \<open>0\<close> and \<open>inductor\<close>
  otherwise, the four inductor options are set, and \<open>custom_ops\<close> becomes \<open>["none"]\<close>
  when the attribute \<open>use_inductor\<close> holds and is left as it was otherwise.
\<close>

theorem piecewise_compilation:
  assumes "level (compilation_config (cfg s)) = PIECEWISE"
    and "fst (check_and_update_config h s) = None"
  shows "level (compilation_config (cfg (snd (check_and_update_config h s))))
           = (if lora_config (cfg s) = None then DYNAMO_ONCE else NO_COMPILATION)
     \<and> backend (compilation_config (cfg (snd (check_and_update_config h s))))
           = (if environ_get (environ s) ''VLLM_CPU_CI_ENV'' ''0'' \<noteq> ''0''
              then ''eager'' else ''inductor'')
     \<and> custom_ops (compilation_config (cfg (snd (check_and_update_config h s))))
           = (if use_inductor (compilation_config (cfg s)) then [''none'']
              else custom_ops (compilation_config (cfg s)))
     \<and> use_inductor (compilation_config (cfg (snd (check_and_update_config h s))))
           = use_inductor (compilation_config (cfg s))
     \<and> inductor_compile_config (compilation_config (cfg (snd (check_and_update_config h s))))
           = inductor_compile_config (compilation_config (cfg s)) ++ inductor_toggles"
  using assms
  by (simp add: check_and_update_config_success Let_def)

theorem piecewise_compilation_witness:
  "fst (check_and_update_config example_host (initial example_config [''VLLM_CPU_CI_ENV'' \<mapsto> ''1''])) = None
   \<and> level (compilation_config (cfg (snd (check_and_update_config example_host
         (initial example_config [''VLLM_CPU_CI_ENV'' \<mapsto> ''1'']))))) = DYNAMO_ONCE
   \<and> backend (compilation_config (cfg (snd (check_and_update_config example_host
         (initial example_config [''VLLM_CPU_CI_ENV'' \<mapsto> ''1''])))))  = ''eager''
   \<and> backend (compilation_config (cfg (snd (check_and_update_config example_host
         (initial example_config Map.empty))))) = ''inductor''
   \<and> custom_ops (compilation_config (cfg (snd (check_and_update_config example_host
         (initial example_config Map.empty))))) = [''none'']"
  using piecewise_compilation [of "initial example_config [''VLLM_CPU_CI_ENV'' \<mapsto> ''1'']" example_host]
    piecewise_compilation [of "initial example_config Map.empty" example_host]
  by (simp add: initial_def example_config_def example_host_def
      check_and_update_config_error get_max_threads_def environ_get_def)

text \<open>
  C9 as the spec states it fails: with LoRA the piecewise level does not end as the
  eager-compile level \<open>DYNAMO_ONCE\<close>, line 223 sets it to \<open>NO_COMPILATION\<close>.
\<close>

theorem piecewise_lora_counterexample:
  "level (compilation_config (cfg (initial lora_piecewise_config Map.empty))) = PIECEWISE
   \<and> fst (check_and_update_config example_host (initial lora_piecewise_config Map.empty)) = None
   \<and> level (compilation_config (cfg (snd (check_and_update_config example_host
         (initial lora_piecewise_config Map.empty))))) = NO_COMPILATION"
  by (simp add: initial_def lora_piecewise_config_def example_config_def example_host_def
      check_and_update_config_error check_and_update_config_success get_max_threads_def)

subsection \<open>A second call\<close>

lemma second_run_succeeds:
  assumes "fst (check_and_update_config h s) = None"
  shows "fst (check_and_update_config h (snd (check_and_update_config h s))) = None"
proof -
  from assms obtain cc n where c: "cache_config (cfg s) = Some cc"
    and b: "ipex_available h \<or> block_size cc = None \<or> block_size cc = Some 16"
    and f: "cache_dtype cc = ''auto'' \<or>
         \<not> chunked_prefill_enabled (scheduler_config (cfg s)) \<and> \<not> enable_prefix_caching cc"
    and d: "device_type (device_config (cfg s)) = ''cpu''"
    and t: "get_max_threads h = Inr n"
    by (rule success_conditions)
  show ?thesis
    using c b f d t
    by (auto simp add: check_and_update_config_success [OF assms] check_and_update_config_error
        Let_def split: option.splits)
qed

lemma second_run_model:
  assumes "fst (check_and_update_config h s) = None"
  shows "model_config (cfg (snd (check_and_update_config h (snd (check_and_update_config h s)))))
         = model_config (cfg (snd (check_and_update_config h s)))"
proof -
  from assms obtain cc where c: "cache_config (cfg s) = Some cc"
    by (rule success_conditions)
  show ?thesis
    apply (subst check_and_update_config_success [OF second_run_succeeds [OF assms]])
    using c
    by (cases "model_config (cfg s)")
      (auto simp add: check_and_update_config_success [OF assms] Let_def)
qed

lemma second_run_cache:
  assumes "fst (check_and_update_config h s) = None"
  shows "cache_config (cfg (snd (check_and_update_config h (snd (check_and_update_config h s)))))
         = cache_config (cfg (snd (check_and_update_config h s)))"
proof -
  from assms obtain cc where c: "cache_config (cfg s) = Some cc"
    by (rule success_conditions)
  show ?thesis
    apply (subst check_and_update_config_success [OF second_run_succeeds [OF assms]])
    using c
    by (cases "model_config (cfg s)")
      (auto simp add: check_and_update_config_success [OF assms] Let_def)
qed

lemma second_run_scheduler:
  assumes "fst (check_and_update_config h s) = None"
  shows "scheduler_config (cfg (snd (check_and_update_config h (snd (check_and_update_config h s)))))
         = scheduler_config (cfg (snd (check_and_update_config h s)))"
proof -
  from assms obtain cc where c: "cache_config (cfg s) = Some cc"
    by (rule success_conditions)
  show ?thesis
    apply (subst check_and_update_config_success [OF second_run_succeeds [OF assms]])
    using c
    by (cases "model_config (cfg s)")
      (auto simp add: check_and_update_config_success [OF assms] Let_def)
qed

lemma second_run_parallel:
  assumes "fst (check_and_update_config h s) = None"
  shows "parallel_config (cfg (snd (check_and_update_config h (snd (check_and_update_config h s)))))
         = parallel_config (cfg (snd (check_and_update_config h s)))"
proof -
  from assms obtain cc where c: "cache_config (cfg s) = Some cc"
    by (rule success_conditions)
  show ?thesis
    apply (subst check_and_update_config_success [OF second_run_succeeds [OF assms]])
    using c
    by (cases "model_config (cfg s)")
      (auto simp add: check_and_update_config_success [OF assms] Let_def)
qed

lemma second_run_compilation:
  assumes "fst (check_and_update_config h s) = None"
  shows "compilation_config (cfg (snd (check_and_update_config h (snd (check_and_update_config h s)))))
         = compilation_config (cfg (snd (check_and_update_config h s)))"
proof -
  from assms obtain cc where c: "cache_config (cfg s) = Some cc"
    by (rule success_conditions)
  show ?thesis
    apply (subst check_and_update_config_success [OF second_run_succeeds [OF assms]])
    using c
    by (cases "model_config (cfg s)")
      (auto simp add: check_and_update_config_success [OF assms] Let_def)
qed

lemma second_run_lora:
  assumes "fst (check_and_update_config h s) = None"
  shows "lora_config (cfg (snd (check_and_update_config h (snd (check_and_update_config h s)))))
         = lora_config (cfg (snd (check_and_update_config h s)))"
proof -
  from assms obtain cc where c: "cache_config (cfg s) = Some cc"
    by (rule success_conditions)
  show ?thesis
    apply (subst check_and_update_config_success [OF second_run_succeeds [OF assms]])
    using c
    by (cases "model_config (cfg s)")
      (simp_all add: check_and_update_config_success [OF assms] Let_def)
qed

lemma second_run_device:
  assumes "fst (check_and_update_config h s) = None"
  shows "device_config (cfg (snd (check_and_update_config h (snd (check_and_update_config h s)))))
         = device_config (cfg (snd (check_and_update_config h s)))"
proof -
  from assms obtain cc where c: "cache_config (cfg s) = Some cc"
    by (rule success_conditions)
  show ?thesis
    apply (subst check_and_update_config_success [OF second_run_succeeds [OF assms]])
    using c
    by (cases "model_config (cfg s)")
      (simp_all add: check_and_update_config_success [OF assms] Let_def)
qed

text \<open>
  C7: when \<open>check_and_update_config\<close> returns without an exception, a second call on
  the state it left, with the same host, returns without an exception as well and
  leaves every attribute of the configuration as it was.
\<close>

theorem resolve_idempotent:
  assumes "fst (check_and_update_config h s) = None"
  shows "fst (check_and_update_config h (snd (check_and_update_config h s))) = None
     \<and> cfg (snd (check_and_update_config h (snd (check_and_update_config h s))))
         = cfg (snd (check_and_update_config h s))"
proof
  show "fst (check_and_update_config h (snd (check_and_update_config h s))) = None"
    by (rule second_run_succeeds [OF assms])
  show "cfg (snd (check_and_update_config h (snd (check_and_update_config h s))))
         = cfg (snd (check_and_update_config h s))"
    by (rule VllmConfig.equality)
      (simp_all add: second_run_model [OF assms] second_run_cache [OF assms]
        second_run_scheduler [OF assms] second_run_parallel [OF assms]
        second_run_compilation [OF assms] second_run_lora [OF assms]
        second_run_device [OF assms])
qed

theorem resolve_idempotent_witness:
  "fst (check_and_update_config example_host (initial example_config Map.empty)) = None
   \<and> fst (check_and_update_config example_host
         (snd (check_and_update_config example_host (initial example_config Map.empty)))) = None
   \<and> cfg (snd (check_and_update_config example_host
         (snd (check_and_update_config example_host (initial example_config Map.empty)))))
       = cfg (snd (check_and_update_config example_host (initial example_config Map.empty)))"
  using resolve_idempotent [of example_host "initial example_config Map.empty"]
  by (simp add: initial_def example_config_def example_host_def
      check_and_update_config_error get_max_threads_def)

subsection \<open>The order of the writes\<close>

lemma only_config_writes_iff:
  "only_config_writes s s' \<longleftrightarrow> (\<exists>t. trace s' = trace s @ t \<and> list_all is_config_write t)"
  by (auto simp add: only_config_writes_def) (metis append_take_drop_id)

lemma only_config_writes_refl [simp]: "only_config_writes s s"
  by (simp add: only_config_writes_iff)

lemma only_config_writes_trans:
  "only_config_writes s s' \<Longrightarrow> only_config_writes s' s'' \<Longrightarrow> only_config_writes s s''"
  by (auto simp add: only_config_writes_iff)

lemma only_config_writes_set_config [simp]:
  "only_config_writes s (set_config a f s)"
  by (simp add: only_config_writes_iff)

lemma only_config_writes_set_config2:
  "only_config_writes s s' \<Longrightarrow> only_config_writes s (set_config a f s')"
  by (auto simp add: only_config_writes_iff)

lemma rules_only_config_writes:
  "only_config_writes s (disable_cascade s)"
  "only_config_writes s (snd (resolve_block_size h s))"
  "only_config_writes s (remap_fp8 s)"
  "only_config_writes s (upgrade_dtype s)"
  "only_config_writes s (set_kvcache_space h s)"
  "only_config_writes s (fallback_executor_backend s)"
  "only_config_writes s (bind_worker_cls s)"
  "only_config_writes s (clear_cudagraph_sizes s)"
  "only_config_writes s (compile_piecewise s)"
  "only_config_writes s (set_lora_level s)"
  by (simp_all add: disable_cascade_def resolve_block_size_def remap_fp8_def upgrade_dtype_def
      set_kvcache_space_def fallback_executor_backend_def bind_worker_cls_def
      clear_cudagraph_sizes_def compile_piecewise_def set_lora_level_def Let_def
      only_config_writes_set_config2 split: option.splits)

lemma settle_config_only_config_writes:
  "only_config_writes s (settle_config h s)"
proof -
  note step = only_config_writes_trans [OF _ rules_only_config_writes(3)]
    only_config_writes_trans [OF _ rules_only_config_writes(4)]
    only_config_writes_trans [OF _ rules_only_config_writes(5)]
    only_config_writes_trans [OF _ rules_only_config_writes(6)]
    only_config_writes_trans [OF _ rules_only_config_writes(7)]
    only_config_writes_trans [OF _ rules_only_config_writes(8)]
    only_config_writes_trans [OF _ rules_only_config_writes(9)]
    only_config_writes_trans [OF _ rules_only_config_writes(10)]
  show ?thesis
    unfolding settle_config_def by (intro step only_config_writes_refl)
qed

lemma config_writes_append [simp]:
  "config_writes (t @ u) = config_writes t @ config_writes u"
  by (induction t rule: config_writes.induct) simp_all

lemma config_writes_after_env_prefix:
  "list_all is_config_write t \<Longrightarrow>
   config_writes_after_env (t @ u) = config_writes_after_env u"
  by (induction t) (simp_all add: config_writes_after_env_def)

lemma config_writes_after_env_all_config:
  "list_all is_config_write t \<Longrightarrow> config_writes_after_env t = []"
  by (induction t) (simp_all add: config_writes_after_env_def)

lemma config_writes_after_env_EnvWrite [simp]:
  "config_writes_after_env (EnvWrite k # t) = config_writes t"
  by (simp add: config_writes_after_env_def)

lemma set_environment_trace:
  "\<exists>t. trace (snd (set_environment h s)) = trace s @ EnvWrite ''VLLM_WORKER_MULTIPROC_METHOD'' # t
       \<and> list_all (\<lambda>x. \<not> is_config_write x) t"
  by (auto simp add: set_environment_def set_intel_openmp_def Let_def split: sum.splits)

lemma config_writes_no_config:
  "list_all (\<lambda>x. \<not> is_config_write x) t \<Longrightarrow> config_writes t = []"
  by (induction t rule: config_writes.induct) simp_all

lemma force_mla_trace:
  "trace (force_mla h s) =
     trace s @ (if model_uses_mla (cfg s) then map ConfigWrite mla_writes else [])"
  by (simp add: force_mla_def model_uses_mla_def mla_writes_def Let_def split: option.splits)

lemma model_uses_mla_kept:
  "fst (check_and_update_config h s) = None \<Longrightarrow>
   model_uses_mla (cfg (snd (set_environment h (settle_config h (snd (resolve_block_size h (disable_cascade s)))))))
     = model_uses_mla (cfg s)"
  by (cases "model_config (cfg s)"; cases "cache_config (cfg s)")
    (simp_all add: model_uses_mla_def check_and_update_config_error)

lemma config_writes_map_ConfigWrite [simp]:
  "config_writes (map ConfigWrite xs) = xs"
  by (induction xs) simp_all

text \<open>
  C8, as the code has it: in a call of \<open>check_and_update_config\<close> the writes are, in
  order, writes of configuration attributes, then writes of environment variables,
  then, only when the call returns without an exception and the model uses multi-head
  latent attention, the three scheduler attributes of lines 264 to 268. So the
  attributes written after the first environment variable are those three, or none.
\<close>

theorem config_writes_after_environment:
  "config_writes_after_env (trace (snd (check_and_update_config h (initial c e)))) =
     (if fst (check_and_update_config h (initial c e)) = None \<and> model_uses_mla c
      then mla_writes else [])
   \<and> (\<exists>pre envs.
        trace (snd (check_and_update_config h (initial c e))) =
          pre @ envs @
          (if fst (check_and_update_config h (initial c e)) = None \<and> model_uses_mla c
           then map ConfigWrite mla_writes else [])
        \<and> list_all is_config_write pre \<and> list_all (\<lambda>x. \<not> is_config_write x) envs)"
proof -
  let ?s = "initial c e"
  let ?s1 = "snd (resolve_block_size h (disable_cascade ?s))"
  let ?s3 = "settle_config h ?s1"
  let ?s4 = "snd (set_environment h ?s3)"
  let ?r = "check_and_update_config h ?s"
  let ?m = "if fst ?r = None \<and> model_uses_mla c then map ConfigWrite mla_writes else []"
  have t0: "trace ?s = []"
    by (simp add: initial_def)
  have p1: "only_config_writes ?s ?s1"
    by (rule only_config_writes_trans [OF rules_only_config_writes(1) rules_only_config_writes(2)])
  have p3: "only_config_writes ?s ?s3"
    by (rule only_config_writes_trans [OF p1 settle_config_only_config_writes])
  from p1 t0 have c1: "list_all is_config_write (trace ?s1)"
    by (auto simp add: only_config_writes_iff)
  from p3 t0 have c3: "list_all is_config_write (trace ?s3)"
    by (auto simp add: only_config_writes_iff)
  from set_environment_trace [of h ?s3] obtain te
    where e4: "trace ?s4 = trace ?s3 @ EnvWrite ''VLLM_WORKER_MULTIPROC_METHOD'' # te"
      and ce: "list_all (\<lambda>x. \<not> is_config_write x) te"
    by blast
  have shape: "\<exists>pre envs. trace (snd ?r) = pre @ envs @ ?m
      \<and> list_all is_config_write pre \<and> list_all (\<lambda>x. \<not> is_config_write x) envs"
  proof (cases "fst ?r = None")
    case True
    have "model_uses_mla (cfg ?s4) = model_uses_mla c"
      using model_uses_mla_kept [OF True] by (simp add: initial_def)
    then have "trace (snd ?r) =
        trace ?s3 @ (EnvWrite ''VLLM_WORKER_MULTIPROC_METHOD'' # te) @ ?m"
      using True by (simp add: check_and_update_config_success [OF True] force_mla_trace e4)
    with c3 ce show ?thesis
      by (intro exI [of _ "trace ?s3"] exI [of _ "EnvWrite ''VLLM_WORKER_MULTIPROC_METHOD'' # te"])
        simp
  next
    case False
    then have m: "?m = []"
      by auto
    from check_and_update_config_failure [OF False] show ?thesis
    proof (elim disjE conjE)
      assume "snd ?r = ?s1"
      with c1 show ?thesis
        unfolding m by (intro exI [of _ "trace ?s1"] exI [of _ "[]"]) simp
    next
      assume "snd ?r = ?s3"
      with c3 show ?thesis
        unfolding m by (intro exI [of _ "trace ?s3"] exI [of _ "[]"]) simp
    next
      assume "snd ?r = ?s4"
      with c3 ce show ?thesis
        unfolding m
        by (intro exI [of _ "trace ?s3"] exI [of _ "EnvWrite ''VLLM_WORKER_MULTIPROC_METHOD'' # te"])
          (simp add: e4)
    qed
  qed
  have a4: "config_writes_after_env (trace ?s4 @ u) = config_writes u" for u
    using c3 by (simp add: e4 config_writes_after_env_prefix config_writes_no_config [OF ce])
  have "config_writes_after_env (trace (snd ?r)) =
      (if fst ?r = None \<and> model_uses_mla c then mla_writes else [])"
  proof (cases "fst ?r = None")
    case True
    have "model_uses_mla (cfg ?s4) = model_uses_mla c"
      using model_uses_mla_kept [OF True] by (simp add: initial_def)
    then have "trace (snd ?r) =
        trace ?s4 @ (if model_uses_mla c then map ConfigWrite mla_writes else [])"
      by (simp add: check_and_update_config_success [OF True] force_mla_trace)
    then show ?thesis
      using True by (simp add: a4)
  next
    case False
    from check_and_update_config_failure [OF False]
    have "config_writes_after_env (trace (snd ?r)) = []"
    proof (elim disjE conjE)
      assume "snd ?r = ?s1"
      then show ?thesis using c1 by (simp add: config_writes_after_env_all_config)
    next
      assume "snd ?r = ?s3"
      then show ?thesis using c3 by (simp add: config_writes_after_env_all_config)
    next
      assume "snd ?r = ?s4"
      then show ?thesis using a4 [of "[]"] by simp
    qed
    with False show ?thesis by auto
  qed
  with shape show ?thesis
    by blast
qed

theorem config_writes_after_environment_witness:
  "config_writes_after_env (trace (snd (check_and_update_config example_host
      (initial example_config Map.empty)))) = []
   \<and> fst (check_and_update_config example_host (initial example_config Map.empty)) = None"
  using config_writes_after_environment [of example_host example_config Map.empty]
  by (simp add: model_uses_mla_def example_config_def example_host_def initial_def
      check_and_update_config_error get_max_threads_def)

text \<open>
  C8 as the spec states it fails: with multi-head latent attention three attributes
  of the scheduler configuration are assigned after the environment variables.
\<close>

theorem mla_after_environment_counterexample:
  "config_writes_after_env (trace (snd (check_and_update_config example_host
      (initial mla_config Map.empty)))) =
     [''scheduler_config.enable_chunked_prefill'', ''scheduler_config.chunked_prefill_enabled'',
      ''scheduler_config.max_num_batched_tokens'']"
  by (simp add: check_and_update_config_def and_then_def resolve_block_size_def
      disable_cascade_def check_fp8_compat_def settle_config_def remap_fp8_def upgrade_dtype_def
      set_kvcache_space_def fallback_executor_backend_def bind_worker_cls_def
      clear_cudagraph_sizes_def compile_piecewise_def set_lora_level_def assert_device_type_def
      set_environment_def set_intel_openmp_def force_mla_def get_max_threads_def
      environ_get_def config_writes_after_env_def
      mla_config_def example_config_def example_host_def initial_def Let_def)

end
